theory Spec2Isabelle
  imports Main
begin

section \<open>The serializer registry of faust (faust/serializers/registry.py)\<close>

text \<open>
  The registry turns transport bytes into typed values and back.  It owns the
  policy only: which codec is chosen, which coercion follows, how a failure is
  classified.  The codecs, the model classes and the two coercion helpers live in
  other modules (\<^verbatim>\<open>.codecs\<close>, \<^verbatim>\<open>..models.base\<close>, \<^verbatim>\<open>..utils.compat\<close>); here they are
  parameters of every operation, collected in the record \<open>collaborators\<close>, so each
  theorem below holds for whatever these modules compute.
\<close>

subsection \<open>Values\<close>

text \<open>
  \<^verbatim>\<open>CodecArg = Optional[Union[CodecT, str]]\<close>: a codec is named by a string or is a
  codec object; the argument may be \<^verbatim>\<open>None\<close>.
\<close>

datatype codec = CodecName string | CodecObj nat

type_synonym codec_arg = "codec option"

text \<open>A model class: its name and \<^verbatim>\<open>_options.serializer\<close>.\<close>

datatype model_type = ModelType (mt_name: string) (options_serializer: codec_arg)

text \<open>
  The Python values that reach the registry.  A model instance knows its class
  (\<^verbatim>\<open>type(v)\<close>) and carries its state.
\<close>

datatype "value" =
    VNone
  | VBytes string
  | VStr string
  | VInt int
  | VDict "(string \<times> value) list"
  | VModel model_type "value"

text \<open>\<^verbatim>\<open>ModelArg = Union[Type[ModelT], Type[bytes], Type[str]]\<close>; \<^verbatim>\<open>typ\<close> is \<^verbatim>\<open>Optional[ModelArg]\<close>.\<close>

datatype model_arg = ArgBytes | ArgStr | ArgModel model_type

text \<open>The classes that may occur in the \<^verbatim>\<open>skip\<close> tuple (\<^verbatim>\<open>IsInstanceArg\<close>).\<close>

datatype pytype = TyNone | TyBytes | TyStr | TyInt | TyDict | TyModelT | TyModel model_type

fun isinstance :: "value \<Rightarrow> pytype \<Rightarrow> bool" where
  "isinstance VNone ty = (ty = TyNone)"
| "isinstance (VBytes b) ty = (ty = TyBytes)"
| "isinstance (VStr s) ty = (ty = TyStr)"
| "isinstance (VInt i) ty = (ty = TyInt)"
| "isinstance (VDict d) ty = (ty = TyDict)"
| "isinstance (VModel t st) ty = (ty = TyModelT \<or> ty = TyModel t)"

text \<open>\<^verbatim>\<open>isinstance(x, skip)\<close> with a tuple of classes.\<close>

definition isinstance_any :: "value \<Rightarrow> pytype list \<Rightarrow> bool" where
  "isinstance_any v skip = list_ex (isinstance v) skip"

text \<open>\<^verbatim>\<open>isinstance(x, ModelT)\<close>.\<close>

fun is_model :: "value \<Rightarrow> bool" where
  "is_model (VModel t st) = True"
| "is_model v = False"

text \<open>
  Truth value of a codec argument, as \<^verbatim>\<open>or\<close> and \<^verbatim>\<open>if serializer\<close> test it:
  \<^verbatim>\<open>None\<close> and the empty name are false, everything else is true.
\<close>

fun truthy :: "codec_arg \<Rightarrow> bool" where
  "truthy None = False"
| "truthy (Some (CodecName n)) = (n \<noteq> [])"
| "truthy (Some (CodecObj i)) = True"

text \<open>\<^verbatim>\<open>a or b\<close>.\<close>

definition py_or :: "codec_arg \<Rightarrow> codec_arg \<Rightarrow> codec_arg" where
  "py_or a b = (if truthy a then a else b)"

subsection \<open>Exceptions\<close>

text \<open>
  An exception has a class, the text \<^verbatim>\<open>str(exc)\<close> and its \<^verbatim>\<open>__cause__\<close>.
  \<open>MemoryError\<close> stands for that class and its subclasses, \<open>OtherError n\<close> for any other
  class \<open>n\<close> that derives from \<^verbatim>\<open>Exception\<close>, and \<open>SystemExiting n\<close> for a class \<open>n\<close> that
  derives from \<^verbatim>\<open>BaseException\<close> but not from \<^verbatim>\<open>Exception\<close> (\<^verbatim>\<open>KeyboardInterrupt\<close>,
  \<^verbatim>\<open>SystemExit\<close>, \<^verbatim>\<open>GeneratorExit\<close>).
\<close>

datatype exc_class =
    MemoryError
  | KeyDecodeError
  | ValueDecodeError
  | AttributeError
  | OtherError string
  | SystemExiting string

text \<open>\<^verbatim>\<open>issubclass(cls, Exception)\<close>: what the clause \<^verbatim>\<open>except Exception\<close> catches.\<close>

fun is_Exception :: "exc_class \<Rightarrow> bool" where
  "is_Exception MemoryError = True"
| "is_Exception KeyDecodeError = True"
| "is_Exception ValueDecodeError = True"
| "is_Exception AttributeError = True"
| "is_Exception (OtherError n) = True"
| "is_Exception (SystemExiting n) = False"

datatype exn = Exn (exc_class: exc_class) (exc_str: string) (exc_cause: "exn option")

subsection \<open>Calls into the other modules\<close>

text \<open>
  Every call that leaves the registry is recorded, with its arguments, in the order
  it is made.  An operation yields its result (or the exception it raises) together
  with this record of calls.
\<close>

datatype call =
    Loads codec_arg "value"
  | Dumps codec_arg "value"
  | MaybeReconstruct "value"
  | MaybeNamespace "value"
  | WantStr "value"
  | WantBytes "value"
  | Construct model_type "value"
  | ModelDumps "value" codec_arg

type_synonym 'a outcome = "(exn + 'a) \<times> call list"

definition ret :: "'a \<Rightarrow> 'a outcome" where
  "ret x = (Inr x, [])"

definition raise :: "exn \<Rightarrow> 'a outcome" where
  "raise e = (Inl e, [])"

text \<open>Sequencing: the second step runs only when the first returned.\<close>

definition bind :: "'a outcome \<Rightarrow> ('a \<Rightarrow> 'b outcome) \<Rightarrow> 'b outcome" where
  "bind m f =
     (case m of
        (Inl e, t) \<Rightarrow> (Inl e, t)
      | (Inr x, t) \<Rightarrow> (case f x of (r, t') \<Rightarrow> (r, t @ t')))"

definition invoke :: "call \<Rightarrow> exn + 'a \<Rightarrow> 'a outcome" where
  "invoke c r = (r, [c])"

text \<open>
  The functions imported by the registry.  \<open>model_init t d\<close> is \<^verbatim>\<open>t.__init__\<close> on the
  data \<open>d\<close>: it raises or gives the state of the new instance of \<open>t\<close>.
\<close>

record collaborators =
  loads :: "codec_arg \<Rightarrow> value \<Rightarrow> exn + value"
  dumps :: "codec_arg \<Rightarrow> value \<Rightarrow> exn + value"
  maybe_reconstruct :: "value \<Rightarrow> exn + value"
  maybe_namespace :: "value \<Rightarrow> exn + model_type option"
  want_str :: "value \<Rightarrow> exn + value"
  want_bytes :: "value \<Rightarrow> exn + value"
  model_init :: "model_type \<Rightarrow> value \<Rightarrow> exn + value"
  model_dumps :: "value \<Rightarrow> codec_arg \<Rightarrow> exn + value"

text \<open>\<^verbatim>\<open>cls(data)\<close> for a model class: on success the result is an instance of \<open>cls\<close>.\<close>

definition construct :: "collaborators \<Rightarrow> model_type \<Rightarrow> value \<Rightarrow> value outcome" where
  "construct cap cls data =
     invoke (Construct cls data)
       (case model_init cap cls data of Inl e \<Rightarrow> Inl e | Inr st \<Rightarrow> Inr (VModel cls st))"

subsection \<open>The registry\<close>

record registry =
  key_serializer :: codec_arg
  value_serializer :: codec_arg

text \<open>\<^verbatim>\<open>Registry.__init__(key_serializer=None, value_serializer='json')\<close>.\<close>

definition Registry :: registry where
  "Registry = \<lparr>key_serializer = None, value_serializer = Some (CodecName ''json'')\<rparr>"

text \<open>\<^verbatim>\<open>Registry._loads\<close>.\<close>

definition registry_loads :: "collaborators \<Rightarrow> codec_arg \<Rightarrow> value \<Rightarrow> value outcome" where
  "registry_loads cap serializer data = invoke (Loads serializer data) (loads cap serializer data)"

text \<open>
  \<^verbatim>\<open>Registry._loads_model\<close>.  The caller passes \<^verbatim>\<open>typ\<close> through a \<^verbatim>\<open>cast\<close>, which checks
  nothing: when \<^verbatim>\<open>typ\<close> is \<^verbatim>\<open>None\<close>, \<^verbatim>\<open>str\<close> or \<^verbatim>\<open>bytes\<close> the attribute \<^verbatim>\<open>_options\<close> is missing
  and the lookup raises before anything is decoded.  A class is always true in
  \<^verbatim>\<open>self_cls(data) if self_cls else typ(data)\<close>, so the test is whether the lookup gave one.
\<close>

definition loads_model ::
  "collaborators \<Rightarrow> model_arg option \<Rightarrow> codec_arg \<Rightarrow> value \<Rightarrow> value outcome" where
  "loads_model cap typ default_serializer data =
     (case typ of
        None \<Rightarrow> raise (Exn AttributeError
                  ''NoneType object has no attribute _options'' None)
      | Some ArgStr \<Rightarrow> raise (Exn AttributeError
                  ''type object str has no attribute _options'' None)
      | Some ArgBytes \<Rightarrow> raise (Exn AttributeError
                  ''type object bytes has no attribute _options'' None)
      | Some (ArgModel cls) \<Rightarrow>
          bind (registry_loads cap (py_or (options_serializer cls) default_serializer) data)
            (\<lambda>data.
               bind (invoke (MaybeNamespace data) (maybe_namespace cap data))
                 (\<lambda>self_cls.
                    case self_cls of
                      Some c \<Rightarrow> construct cap c data
                    | None \<Rightarrow> construct cap cls data)))"

text \<open>
  The handlers shared by both decode operations, in the order of the source:
  \<^verbatim>\<open>except MemoryError: raise\<close>, then
  \<^verbatim>\<open>except Exception as exc: raise E(str(exc)).with_traceback(...) from exc\<close>.
  An exception that neither clause catches leaves the operation as it was raised.
\<close>

definition reraise_as :: "exc_class \<Rightarrow> 'a outcome \<Rightarrow> 'a outcome" where
  "reraise_as E m =
     (case m of
        (Inl exc, t) \<Rightarrow>
          (if exc_class exc = MemoryError then (Inl exc, t)
           else if is_Exception (exc_class exc) then
             (Inl (Exn E (exc_str exc) (Some exc)), t)
           else (Inl exc, t))
      | (Inr v, t) \<Rightarrow> (Inr v, t))"

text \<open>
  The same handlers on a single result: what the caller of a decode operation gets
  when the last call of the body gave \<open>r\<close>.
\<close>

definition handled :: "exc_class \<Rightarrow> exn + 'a \<Rightarrow> exn + 'a" where
  "handled E r =
     (case r of
        Inl exc \<Rightarrow>
          Inl (if exc_class exc = MemoryError then exc
               else if is_Exception (exc_class exc) then Exn E (exc_str exc) (Some exc)
               else exc)
      | Inr v \<Rightarrow> Inr v)"

text \<open>The body of the \<^verbatim>\<open>try\<close> of \<^verbatim>\<open>loads_key\<close> (lines 42 to 55).\<close>

definition loads_key_try ::
  "collaborators \<Rightarrow> model_arg option \<Rightarrow> value \<Rightarrow> codec_arg \<Rightarrow> value outcome" where
  "loads_key_try cap typ key serializer =
     (if is_model key then loads_model cap typ serializer key
      else
        bind (registry_loads cap serializer key)
          (\<lambda>d. bind (invoke (MaybeReconstruct d) (maybe_reconstruct cap d))
            (\<lambda>k.
               case typ of
                 None \<Rightarrow> ret k
               | Some ArgStr \<Rightarrow> invoke (WantStr k) (want_str cap k)
               | Some ArgBytes \<Rightarrow> invoke (WantBytes k) (want_bytes cap k)
               | Some (ArgModel cls) \<Rightarrow>
                   (if \<not> is_model k then construct cap cls k else ret k))))"

definition loads_key ::
  "collaborators \<Rightarrow> registry \<Rightarrow> model_arg option \<Rightarrow> value \<Rightarrow> codec_arg \<Rightarrow> value outcome" where
  "loads_key cap self typ key serializer =
     (if key = VNone then ret key
      else
        let serializer = py_or serializer (key_serializer self)
        in reraise_as KeyDecodeError (loads_key_try cap typ key serializer))"

text \<open>
  The body of the \<^verbatim>\<open>try\<close> of \<^verbatim>\<open>loads_value\<close> (lines 93 to 109).  Line 99 replaces a
  missing \<^verbatim>\<open>typ\<close> by \<^verbatim>\<open>bytes\<close>, so the test of line 102 always succeeds.
\<close>

definition loads_value_try ::
  "collaborators \<Rightarrow> registry \<Rightarrow> model_arg option \<Rightarrow> value \<Rightarrow> codec_arg \<Rightarrow> value outcome" where
  "loads_value_try cap self typ val serializer =
     (let serializer = py_or serializer (value_serializer self)
      in if is_model val then loads_model cap typ serializer val
         else
           let typ = (case typ of None \<Rightarrow> ArgBytes | Some t \<Rightarrow> t)
           in bind (registry_loads cap serializer val)
                (\<lambda>d. bind (invoke (MaybeReconstruct d) (maybe_reconstruct cap d))
                  (\<lambda>v.
                     case typ of
                       ArgStr \<Rightarrow> invoke (WantStr v) (want_str cap v)
                     | ArgBytes \<Rightarrow> invoke (WantBytes v) (want_bytes cap v)
                     | ArgModel cls \<Rightarrow>
                         (if \<not> is_model v then construct cap cls v else ret v))))"

definition loads_value ::
  "collaborators \<Rightarrow> registry \<Rightarrow> model_arg option \<Rightarrow> value \<Rightarrow> codec_arg \<Rightarrow> value outcome" where
  "loads_value cap self typ val serializer =
     (if val = VNone then ret VNone
      else reraise_as ValueDecodeError (loads_value_try cap self typ val serializer))"

text \<open>
  \<^verbatim>\<open>Registry.dumps_key\<close>.  Line 126 overwrites the \<^verbatim>\<open>serializer\<close> argument with the
  registry's default before it is read.
\<close>

definition dumps_key ::
  "collaborators \<Rightarrow> registry \<Rightarrow> value \<Rightarrow> codec_arg \<Rightarrow> pytype list \<Rightarrow> value outcome" where
  "dumps_key cap self key serializer skip =
     (let serializer = key_serializer self;
          is_model = is_model key;
          serializer = (case key of
                          VModel cls st \<Rightarrow> py_or (options_serializer cls) serializer
                        | _ \<Rightarrow> serializer)
      in if truthy serializer \<and> \<not> isinstance_any key skip then
           (if is_model then invoke (ModelDumps key serializer) (model_dumps cap key serializer)
            else invoke (Dumps serializer key) (dumps cap serializer key))
         else if key \<noteq> VNone then invoke (WantBytes key) (want_bytes cap key)
         else ret VNone)"

text \<open>\<^verbatim>\<open>Registry.dumps_value\<close>.  The last line is a \<^verbatim>\<open>cast\<close>: the value is returned as it is.\<close>

definition dumps_value ::
  "collaborators \<Rightarrow> registry \<Rightarrow> value \<Rightarrow> codec_arg \<Rightarrow> pytype list \<Rightarrow> value outcome" where
  "dumps_value cap self val serializer skip =
     (let serializer = py_or serializer (value_serializer self);
          is_model = is_model val;
          serializer = (case val of
                          VModel cls st \<Rightarrow> py_or (options_serializer cls) serializer
                        | _ \<Rightarrow> serializer)
      in if truthy serializer \<and> \<not> isinstance_any val skip then
           (if is_model then invoke (ModelDumps val serializer) (model_dumps cap val serializer)
            else invoke (Dumps serializer val) (dumps cap serializer val))
         else ret val)"

text \<open>The default of the keyword argument \<^verbatim>\<open>skip\<close>: \<^verbatim>\<open>(bytes,)\<close>.\<close>

definition default_skip :: "pytype list" where
  "default_skip = [TyBytes]"

subsection \<open>Reading the record of calls\<close>

text \<open>The codec argument of a call to the codec layer or to a model's \<^verbatim>\<open>dumps\<close>.\<close>

fun codec_of :: "call \<Rightarrow> codec_arg list" where
  "codec_of (Loads c d) = [c]"
| "codec_of (Dumps c v) = [c]"
| "codec_of (ModelDumps v c) = [c]"
| "codec_of (MaybeReconstruct d) = []"
| "codec_of (MaybeNamespace d) = []"
| "codec_of (WantStr v) = []"
| "codec_of (WantBytes v) = []"
| "codec_of (Construct cls d) = []"

definition codecs_used :: "call list \<Rightarrow> codec_arg list" where
  "codecs_used t = concat (map codec_of t)"

text \<open>The coercions: \<^verbatim>\<open>want_str\<close>, \<^verbatim>\<open>want_bytes\<close> and the construction of a class.\<close>

fun is_coercion :: "call \<Rightarrow> bool" where
  "is_coercion (WantStr v) = True"
| "is_coercion (WantBytes v) = True"
| "is_coercion (Construct cls d) = True"
| "is_coercion (Loads c d) = False"
| "is_coercion (Dumps c v) = False"
| "is_coercion (ModelDumps v c) = False"
| "is_coercion (MaybeReconstruct d) = False"
| "is_coercion (MaybeNamespace d) = False"

definition coercions :: "call list \<Rightarrow> call list" where
  "coercions t = filter is_coercion t"

text \<open>The class of a model instance.\<close>

fun class_of :: "value \<Rightarrow> model_type option" where
  "class_of (VModel cls st) = Some cls"
| "class_of v = None"

subsection \<open>A sample set of collaborators\<close>

text \<open>
  The theorems below hold for every set of collaborators.  To run the operations on
  concrete inputs one set is fixed here, following the interfaces of section 6 of
  the specification.
\<close>

definition json :: codec_arg where
  "json = Some (CodecName ''json'')"

definition model_A :: model_type where
  "model_A = ModelType ''A'' None"

definition model_B :: model_type where
  "model_B = ModelType ''B'' None"

definition model_C :: model_type where
  "model_C = ModelType ''C'' json"

text \<open>The data a serialized instance of \<open>model_A\<close> decodes to: it carries the tag of its class.\<close>

definition tagged_A :: "value" where
  "tagged_A = VDict [(''__faust'', VStr ''A''), (''x'', VInt 1)]"

text \<open>
  Modelled from the spec: the codec capability \<^verbatim>\<open>decode(codecId, data)\<close> and
  \<^verbatim>\<open>encode(codecId, value)\<close> of module \<^verbatim>\<open>.codecs\<close>, which is not among the sources.  The
  codec named json is given by a finite table of byte strings and the primitives
  they stand for; an absent codec means no transformation.
\<close>

definition sample_table :: "(string \<times> value) list" where
  "sample_table =
     [(''null'', VNone),
      (''1'', VInt 1),
      (''{a:1}'', VDict [(''a'', VInt 1)]),
      (''{__faust:A,x:1}'', tagged_A)]"

definition sample_loads :: "codec_arg \<Rightarrow> value \<Rightarrow> exn + value" where
  "sample_loads c data =
     (if \<not> truthy c then Inr data
      else if c \<noteq> json then Inl (Exn (OtherError ''KeyError'') ''unknown codec'' None)
      else case data of
             VBytes b \<Rightarrow>
               (if b = ''huge'' then Inl (Exn MemoryError [] None)
                else case map_of sample_table b of
                       Some v \<Rightarrow> Inr v
                     | None \<Rightarrow> Inl (Exn (OtherError ''ValueError'') ''cannot decode'' None))
           | _ \<Rightarrow> Inl (Exn (OtherError ''TypeError'') ''expected bytes'' None))"

definition sample_dumps :: "codec_arg \<Rightarrow> value \<Rightarrow> exn + value" where
  "sample_dumps c v =
     (if \<not> truthy c then Inr v
      else if c \<noteq> json then Inl (Exn (OtherError ''KeyError'') ''unknown codec'' None)
      else case map_of (map (\<lambda>(b, w). (w, b)) sample_table) v of
             Some b \<Rightarrow> Inr (VBytes b)
           | None \<Rightarrow> Inl (Exn (OtherError ''TypeError'') ''cannot encode'' None))"

text \<open>
  Modelled from the spec: the model capability of module \<^verbatim>\<open>..models.base\<close>, which is
  not among the sources: the lookup of an embedded type tag in the table of known
  model classes, the reconstruction by that tag, the constructor from a decoded
  primitive and a model's own \<^verbatim>\<open>dumps\<close>.
\<close>

definition sample_models :: "(string \<times> model_type) list" where
  "sample_models = [(''A'', model_A), (''B'', model_B), (''C'', model_C)]"

definition sample_maybe_namespace :: "value \<Rightarrow> exn + model_type option" where
  "sample_maybe_namespace data =
     (case data of
        VDict kv \<Rightarrow>
          (case map_of kv ''__faust'' of
             Some (VStr n) \<Rightarrow>
               (case map_of sample_models n of
                  Some cls \<Rightarrow> Inr (Some cls)
                | None \<Rightarrow> Inl (Exn (OtherError ''KeyError'') n None))
           | _ \<Rightarrow> Inr None)
      | _ \<Rightarrow> Inr None)"

definition sample_maybe_reconstruct :: "value \<Rightarrow> exn + value" where
  "sample_maybe_reconstruct data =
     (case sample_maybe_namespace data of
        Inl e \<Rightarrow> Inl e
      | Inr None \<Rightarrow> Inr data
      | Inr (Some cls) \<Rightarrow> Inr (VModel cls data))"

definition sample_model_init :: "model_type \<Rightarrow> value \<Rightarrow> exn + value" where
  "sample_model_init cls data = Inr data"

definition sample_model_dumps :: "value \<Rightarrow> codec_arg \<Rightarrow> exn + value" where
  "sample_model_dumps v c =
     (case v of
        VModel cls st \<Rightarrow> sample_dumps c st
      | _ \<Rightarrow> Inl (Exn AttributeError ''object has no attribute dumps'' None))"

text \<open>
  Modelled from the spec: the coercion helpers \<^verbatim>\<open>asText\<close> and \<^verbatim>\<open>asBytes\<close> of module
  \<^verbatim>\<open>..utils.compat\<close>, which is not among the sources: each fails when the input cannot
  be represented in the target shape.
\<close>

definition sample_want_str :: "value \<Rightarrow> exn + value" where
  "sample_want_str v =
     (case v of
        VStr s \<Rightarrow> Inr (VStr s)
      | VBytes b \<Rightarrow> Inr (VStr b)
      | _ \<Rightarrow> Inl (Exn (OtherError ''CoercionError'') ''not text'' None))"

definition sample_want_bytes :: "value \<Rightarrow> exn + value" where
  "sample_want_bytes v =
     (case v of
        VBytes b \<Rightarrow> Inr (VBytes b)
      | VStr s \<Rightarrow> Inr (VBytes s)
      | _ \<Rightarrow> Inl (Exn (OtherError ''CoercionError'') ''not bytes'' None))"

definition sample :: collaborators where
  "sample =
     \<lparr>loads = sample_loads, dumps = sample_dumps,
      maybe_reconstruct = sample_maybe_reconstruct,
      maybe_namespace = sample_maybe_namespace,
      want_str = sample_want_str, want_bytes = sample_want_bytes,
      model_init = sample_model_init, model_dumps = sample_model_dumps\<rparr>"

text \<open>
  The sample collaborators with a codec that is interrupted while it decodes: every
  call of \<^verbatim>\<open>loads\<close> raises \<^verbatim>\<open>KeyboardInterrupt\<close>.
\<close>

definition interrupted :: collaborators where
  "interrupted =
     sample\<lparr>loads := \<lambda>c data. Inl (Exn (SystemExiting ''KeyboardInterrupt'') [] None)\<rparr>"

section \<open>Properties\<close>

lemmas run_defs = ret_def raise_def bind_def invoke_def

lemma reraise_as_handled: "reraise_as E (r, t) = (handled E r, t)"
  by (simp add: reraise_as_def handled_def split: sum.splits)

lemmas sample_defs =
  sample_def sample_loads_def sample_dumps_def sample_maybe_reconstruct_def
  sample_maybe_namespace_def sample_want_str_def sample_want_bytes_def
  sample_model_init_def sample_model_dumps_def sample_table_def sample_models_def
  json_def model_A_def model_B_def model_C_def tagged_A_def Registry_def default_skip_def

subsection \<open>None is returned at once\<close>

text \<open>
  C2.  For every target type and every serializer override, \<open>loads_key\<close> of a
  \<^verbatim>\<open>None\<close> key returns \<^verbatim>\<open>None\<close> and \<open>loads_value\<close> of a \<^verbatim>\<open>None\<close> value returns \<^verbatim>\<open>None\<close>,
  and no call to a codec, to the reconstruction or to a coercion is made: the
  record of calls is empty, whatever the other modules compute.
\<close>

theorem loads_none_short_circuit:
  "loads_key cap self typ VNone serializer = (Inr VNone, []) \<and>
   loads_value cap self typ VNone serializer = (Inr VNone, [])"
  by (simp add: loads_key_def loads_value_def ret_def)

subsection \<open>Failures of the decode operations\<close>

text \<open>
  C1, as the code has it.  Whatever the target type, the input and the override: when
  the body of \<open>loads_key\<close> raises \<open>exc\<close> while it decodes or coerces and the class of
  \<open>exc\<close> derives from \<^verbatim>\<open>Exception\<close>, the caller sees a \<open>KeyDecodeError\<close> whose text is
  \<^verbatim>\<open>str(exc)\<close> and whose cause is \<open>exc\<close>, and for \<open>loads_value\<close> a \<open>ValueDecodeError\<close> built
  the same way.  A \<open>MemoryError\<close> reaches the caller as it was raised, from both
  operations, and so does an exception whose class does not derive from \<^verbatim>\<open>Exception\<close>.
  Each operation raises exactly when its body does.  In particular a failure of the
  codec on raw input is classified in this way, and nothing is called after it.
\<close>

theorem decode_failure_classified:
  "data \<noteq> VNone \<Longrightarrow>
   (fst (loads_key_try cap typ data (py_or serializer (key_serializer self))) = Inl exc \<longrightarrow>
      fst (loads_key cap self typ data serializer) =
        Inl (if exc_class exc = MemoryError then exc
             else if is_Exception (exc_class exc) then
               Exn KeyDecodeError (exc_str exc) (Some exc)
             else exc)) \<and>
   (fst (loads_value_try cap self typ data serializer) = Inl exc' \<longrightarrow>
      fst (loads_value cap self typ data serializer) =
        Inl (if exc_class exc' = MemoryError then exc'
             else if is_Exception (exc_class exc') then
               Exn ValueDecodeError (exc_str exc') (Some exc')
             else exc')) \<and>
   isl (fst (loads_key cap self typ data serializer)) =
     isl (fst (loads_key_try cap typ data (py_or serializer (key_serializer self)))) \<and>
   isl (fst (loads_value cap self typ data serializer)) =
     isl (fst (loads_value_try cap self typ data serializer)) \<and>
   (\<not> is_model data \<and>
    loads cap (py_or serializer (key_serializer self)) data = Inl kexc \<longrightarrow>
      loads_key cap self typ data serializer =
        (Inl (if exc_class kexc = MemoryError then kexc
              else if is_Exception (exc_class kexc) then
                Exn KeyDecodeError (exc_str kexc) (Some kexc)
              else kexc),
         [Loads (py_or serializer (key_serializer self)) data])) \<and>
   (\<not> is_model data \<and>
    loads cap (py_or serializer (value_serializer self)) data = Inl vexc \<longrightarrow>
      loads_value cap self typ data serializer =
        (Inl (if exc_class vexc = MemoryError then vexc
              else if is_Exception (exc_class vexc) then
                Exn ValueDecodeError (exc_str vexc) (Some vexc)
              else vexc),
         [Loads (py_or serializer (value_serializer self)) data]))"
proof -
  assume ne: "data \<noteq> VNone"
  have a: "fst (loads_key cap self typ data serializer) =
        Inl (if exc_class exc = MemoryError then exc
             else if is_Exception (exc_class exc) then
               Exn KeyDecodeError (exc_str exc) (Some exc)
             else exc)"
    if "fst (loads_key_try cap typ data (py_or serializer (key_serializer self))) = Inl exc"
    using that ne
    by (auto simp: loads_key_def reraise_as_def split: prod.splits sum.splits)
  have b: "fst (loads_value cap self typ data serializer) =
        Inl (if exc_class exc' = MemoryError then exc'
             else if is_Exception (exc_class exc') then
               Exn ValueDecodeError (exc_str exc') (Some exc')
             else exc')"
    if "fst (loads_value_try cap self typ data serializer) = Inl exc'"
    using that ne
    by (auto simp: loads_value_def reraise_as_def split: prod.splits sum.splits)
  have c: "isl (fst (loads_key cap self typ data serializer)) =
     isl (fst (loads_key_try cap typ data (py_or serializer (key_serializer self))))"
    using ne by (auto simp: loads_key_def reraise_as_def split: prod.splits sum.splits)
  have d: "isl (fst (loads_value cap self typ data serializer)) =
     isl (fst (loads_value_try cap self typ data serializer))"
    using ne by (auto simp: loads_value_def reraise_as_def split: prod.splits sum.splits)
  have e: "loads_key cap self typ data serializer =
        (Inl (if exc_class kexc = MemoryError then kexc
              else if is_Exception (exc_class kexc) then
                Exn KeyDecodeError (exc_str kexc) (Some kexc)
              else kexc),
         [Loads (py_or serializer (key_serializer self)) data])"
    if "\<not> is_model data" "loads cap (py_or serializer (key_serializer self)) data = Inl kexc"
    using that ne
    by (simp add: loads_key_def loads_key_try_def registry_loads_def reraise_as_def
          bind_def invoke_def Let_def)
  have f: "loads_value cap self typ data serializer =
        (Inl (if exc_class vexc = MemoryError then vexc
              else if is_Exception (exc_class vexc) then
                Exn ValueDecodeError (exc_str vexc) (Some vexc)
              else vexc),
         [Loads (py_or serializer (value_serializer self)) data])"
    if "\<not> is_model data" "loads cap (py_or serializer (value_serializer self)) data = Inl vexc"
    using that ne
    by (simp add: loads_value_def loads_value_try_def registry_loads_def reraise_as_def
          bind_def invoke_def Let_def)
  from a b c d e f show ?thesis by blast
qed

theorem decode_failure_classified_witness:
  "fst (loads_key_try sample (Some ArgStr) (VBytes ''junk'')
          (py_or json (key_serializer Registry))) =
     Inl (Exn (OtherError ''ValueError'') ''cannot decode'' None) \<and>
   fst (loads_value_try sample Registry (Some ArgStr) (VBytes ''junk'') json) =
     Inl (Exn (OtherError ''ValueError'') ''cannot decode'' None) \<and>
   \<not> is_model (VBytes ''junk'') \<and>
   loads sample (py_or json (key_serializer Registry)) (VBytes ''junk'') =
     Inl (Exn (OtherError ''ValueError'') ''cannot decode'' None) \<and>
   loads sample (py_or json (value_serializer Registry)) (VBytes ''junk'') =
     Inl (Exn (OtherError ''ValueError'') ''cannot decode'' None) \<and>
   loads_key sample Registry (Some ArgStr) (VBytes ''junk'') json =
     (Inl (Exn KeyDecodeError ''cannot decode''
             (Some (Exn (OtherError ''ValueError'') ''cannot decode'' None))),
      [Loads json (VBytes ''junk'')]) \<and>
   loads_value sample Registry (Some ArgStr) (VBytes ''junk'') json =
     (Inl (Exn ValueDecodeError ''cannot decode''
             (Some (Exn (OtherError ''ValueError'') ''cannot decode'' None))),
      [Loads json (VBytes ''junk'')]) \<and>
   fst (loads_key_try sample None (VBytes ''huge'') (py_or json (key_serializer Registry))) =
     Inl (Exn MemoryError [] None) \<and>
   fst (loads_value_try sample Registry None (VBytes ''huge'') None) =
     Inl (Exn MemoryError [] None) \<and>
   fst (loads_key sample Registry None (VBytes ''huge'') json) =
     Inl (Exn MemoryError [] None) \<and>
   fst (loads_value sample Registry None (VBytes ''huge'') None) =
     Inl (Exn MemoryError [] None) \<and>
   loads interrupted (py_or None (key_serializer Registry)) (VBytes ''junk'') =
     Inl (Exn (SystemExiting ''KeyboardInterrupt'') [] None) \<and>
   loads interrupted (py_or None (value_serializer Registry)) (VBytes ''junk'') =
     Inl (Exn (SystemExiting ''KeyboardInterrupt'') [] None) \<and>
   loads_key interrupted Registry (Some ArgStr) (VBytes ''junk'') None =
     (Inl (Exn (SystemExiting ''KeyboardInterrupt'') [] None),
      [Loads None (VBytes ''junk'')]) \<and>
   loads_value interrupted Registry (Some ArgStr) (VBytes ''junk'') None =
     (Inl (Exn (SystemExiting ''KeyboardInterrupt'') [] None),
      [Loads json (VBytes ''junk'')])"
proof -
  have ne: "VBytes ''junk'' \<noteq> VNone" and ne': "VBytes ''huge'' \<noteq> VNone"
    by simp_all
  have c: "py_or json (key_serializer Registry) = json"
          "py_or json (value_serializer Registry) = json"
          "py_or None (key_serializer Registry) = None"
          "py_or None (value_serializer Registry) = json"
    by (simp_all add: py_or_def json_def Registry_def)
  have l: "loads sample json (VBytes ''junk'') =
           Inl (Exn (OtherError ''ValueError'') ''cannot decode'' None)"
    by (simp add: sample_def sample_loads_def sample_table_def json_def)
  have i: "loads interrupted x y = Inl (Exn (SystemExiting ''KeyboardInterrupt'') [] None)"
    for x y
    by (simp add: interrupted_def)
  have k: "fst (loads_key_try sample (Some ArgStr) (VBytes ''junk'')
                  (py_or json (key_serializer Registry))) =
           Inl (Exn (OtherError ''ValueError'') ''cannot decode'' None)"
    by (simp add: loads_key_try_def registry_loads_def py_or_def run_defs sample_defs)
  have v: "fst (loads_value_try sample Registry (Some ArgStr) (VBytes ''junk'') json) =
           Inl (Exn (OtherError ''ValueError'') ''cannot decode'' None)"
    by (simp add: loads_value_try_def registry_loads_def py_or_def run_defs sample_defs)
  have k': "fst (loads_key_try sample None (VBytes ''huge'')
                   (py_or json (key_serializer Registry))) = Inl (Exn MemoryError [] None)"
    by (simp add: loads_key_try_def registry_loads_def py_or_def run_defs sample_defs)
  have v': "fst (loads_value_try sample Registry None (VBytes ''huge'') None) =
            Inl (Exn MemoryError [] None)"
    by (simp add: loads_value_try_def registry_loads_def py_or_def run_defs sample_defs)
  from decode_failure_classified [OF ne, of sample "Some ArgStr" json Registry
         "Exn (OtherError ''ValueError'') ''cannot decode'' None"
         "Exn (OtherError ''ValueError'') ''cannot decode'' None"
         "Exn (OtherError ''ValueError'') ''cannot decode'' None"
         "Exn (OtherError ''ValueError'') ''cannot decode'' None"]
       decode_failure_classified [OF ne', of sample None json Registry
         "Exn MemoryError [] None" _ _ _]
       decode_failure_classified [OF ne', of sample None None Registry
         _ "Exn MemoryError [] None" _ _]
       decode_failure_classified [OF ne, of interrupted "Some ArgStr" None Registry _ _
         "Exn (SystemExiting ''KeyboardInterrupt'') [] None"
         "Exn (SystemExiting ''KeyboardInterrupt'') [] None"]
  show ?thesis using c l i k v k' v' by simp
qed

text \<open>
  C1 as stated fails: \<open>MemoryError\<close> is not the only exception that leaves the decode
  operations unwrapped.  When the codec is interrupted, the \<^verbatim>\<open>KeyboardInterrupt\<close> it
  raises is neither a \<open>MemoryError\<close> nor caught by \<^verbatim>\<open>except Exception\<close>, and it reaches the
  caller of \<open>loads_key\<close> and of \<open>loads_value\<close> as it was raised.
\<close>

theorem decode_failure_unwrapped_counterexample:
  "fst (loads_key interrupted Registry None (VBytes ''1'') None) =
     Inl (Exn (SystemExiting ''KeyboardInterrupt'') [] None) \<and>
   fst (loads_value interrupted Registry None (VBytes ''1'') None) =
     Inl (Exn (SystemExiting ''KeyboardInterrupt'') [] None) \<and>
   exc_class (Exn (SystemExiting ''KeyboardInterrupt'') [] None) \<noteq> KeyDecodeError \<and>
   exc_class (Exn (SystemExiting ''KeyboardInterrupt'') [] None) \<noteq> ValueDecodeError \<and>
   exc_class (Exn (SystemExiting ''KeyboardInterrupt'') [] None) \<noteq> MemoryError"
  by (simp add: loads_key_def loads_key_try_def loads_value_def loads_value_try_def
        registry_loads_def reraise_as_def py_or_def bind_def invoke_def Let_def
        interrupted_def Registry_def)

subsection \<open>Which codec is chosen\<close>

text \<open>
  C3.  For an input that is no model instance, \<open>dumps_key\<close> does not depend on the
  \<^verbatim>\<open>serializer\<close> argument of the call: when it encodes, the codec is the registry's
  \<open>key_serializer\<close>.  \<open>dumps_value\<close> called with a \<^verbatim>\<open>serializer\<close> argument (one that
  counts as true) encodes with that argument, whatever the registry's
  \<open>value_serializer\<close> is.
\<close>

theorem dumps_codec_choice:
  "\<not> is_model v \<Longrightarrow>
   dumps_key cap self v serializer skip = dumps_key cap self v serializer' skip \<and>
   (truthy (key_serializer self) \<and> \<not> isinstance_any v skip \<longrightarrow>
      dumps_key cap self v serializer skip =
        (dumps cap (key_serializer self) v, [Dumps (key_serializer self) v])) \<and>
   (truthy serializer \<and> \<not> isinstance_any v skip \<longrightarrow>
      dumps_value cap self v serializer skip =
        (dumps cap serializer v, [Dumps serializer v]))"
  by (cases v) (simp_all add: dumps_key_def dumps_value_def py_or_def invoke_def Let_def)

theorem dumps_codec_choice_witness:
  "\<not> is_model (VInt 1) \<and>
   truthy (key_serializer \<lparr>key_serializer = json, value_serializer = None\<rparr>) \<and>
   truthy (Some (CodecName ''other'')) \<and>
   \<not> isinstance_any (VInt 1) default_skip \<and>
   dumps_key sample \<lparr>key_serializer = json, value_serializer = None\<rparr> (VInt 1)
       (Some (CodecName ''other'')) default_skip =
     (Inr (VBytes ''1''), [Dumps json (VInt 1)]) \<and>
   dumps_value sample \<lparr>key_serializer = json, value_serializer = json\<rparr> (VInt 1)
       (Some (CodecName ''other'')) default_skip =
     (Inl (Exn (OtherError ''KeyError'') ''unknown codec'' None),
      [Dumps (Some (CodecName ''other'')) (VInt 1)])"
proof -
  have nm: "\<not> is_model (VInt 1)" by simp
  have tk: "truthy (key_serializer \<lparr>key_serializer = json, value_serializer = None\<rparr>)"
    by (simp add: json_def)
  have ts: "truthy (Some (CodecName ''other''))" by simp
  have sk: "\<not> isinstance_any (VInt 1) default_skip"
    by (simp add: isinstance_any_def default_skip_def)
  from dumps_codec_choice [OF nm, of sample
         "\<lparr>key_serializer = json, value_serializer = None\<rparr>"
         "Some (CodecName ''other'')" default_skip]
       dumps_codec_choice [OF nm, of sample
         "\<lparr>key_serializer = json, value_serializer = json\<rparr>"
         "Some (CodecName ''other'')" default_skip]
  show ?thesis using nm tk ts sk by (simp add: sample_defs)
qed

text \<open>
  C4.  Decoding an input that is no model instance hands exactly one codec to the
  codec layer: the \<^verbatim>\<open>serializer\<close> argument of the call when it is given (counts as
  true), otherwise the registry's default for the channel; this holds for every
  target type.  Where a model class is involved (\<open>loads_model\<close> on a model instance
  with a model class as target, and encoding a model instance), the codec declared
  by the class, when present, is the one used, before the argument of the call and
  before the default of the channel.
\<close>

theorem codec_precedence:
  "data \<noteq> VNone \<Longrightarrow> \<not> is_model data \<Longrightarrow>
   codecs_used (snd (loads_key cap self typ data serializer)) =
     [if truthy serializer then serializer else key_serializer self] \<and>
   codecs_used (snd (loads_value cap self typ data serializer)) =
     [if truthy serializer then serializer else value_serializer self] \<and>
   codecs_used (snd (loads_model cap (Some (ArgModel cls)) serializer m)) =
     [if truthy (options_serializer cls) then options_serializer cls else serializer] \<and>
   codecs_used (snd (loads_key cap self (Some (ArgModel cls)) (VModel c st) serializer)) =
     [if truthy (options_serializer cls) then options_serializer cls
      else if truthy serializer then serializer else key_serializer self] \<and>
   codecs_used (snd (loads_value cap self (Some (ArgModel cls)) (VModel c st) serializer)) =
     [if truthy (options_serializer cls) then options_serializer cls
      else if truthy serializer then serializer else value_serializer self] \<and>
   (truthy (options_serializer c) \<and> \<not> isinstance_any (VModel c st) skip \<longrightarrow>
      dumps_key cap self (VModel c st) serializer skip =
        (model_dumps cap (VModel c st) (options_serializer c),
         [ModelDumps (VModel c st) (options_serializer c)]) \<and>
      dumps_value cap self (VModel c st) serializer skip =
        (model_dumps cap (VModel c st) (options_serializer c),
         [ModelDumps (VModel c st) (options_serializer c)]))"
proof -
  assume ne: "data \<noteq> VNone" and nm: "\<not> is_model data"
  have k: "codecs_used (snd (loads_key cap self typ data serializer)) =
           [if truthy serializer then serializer else key_serializer self]"
    using ne nm
    by (simp add: loads_key_def loads_key_try_def registry_loads_def reraise_as_def
          construct_def codecs_used_def py_or_def run_defs Let_def
        split: sum.splits option.splits model_arg.splits prod.splits)
  have v: "codecs_used (snd (loads_value cap self typ data serializer)) =
           [if truthy serializer then serializer else value_serializer self]"
    using ne nm
    by (simp add: loads_value_def loads_value_try_def registry_loads_def reraise_as_def
          construct_def codecs_used_def py_or_def run_defs Let_def
        split: sum.splits option.splits model_arg.splits prod.splits)
  have m: "codecs_used (snd (loads_model cap (Some (ArgModel cls)) s x)) =
           [if truthy (options_serializer cls) then options_serializer cls else s]" for s x
    by (simp add: loads_model_def registry_loads_def construct_def codecs_used_def
          py_or_def run_defs
        split: sum.splits option.splits prod.splits)
  have rr: "snd (reraise_as E x) = snd x" for E and x :: "value outcome"
    by (simp add: reraise_as_def split: prod.splits sum.splits)
  have mk: "codecs_used (snd (loads_key cap self (Some (ArgModel cls)) (VModel c st) serializer)) =
     [if truthy (options_serializer cls) then options_serializer cls
      else if truthy serializer then serializer else key_serializer self]"
    by (simp add: loads_key_def loads_key_try_def rr m Let_def py_or_def)
  have mv: "codecs_used (snd (loads_value cap self (Some (ArgModel cls)) (VModel c st) serializer)) =
     [if truthy (options_serializer cls) then options_serializer cls
      else if truthy serializer then serializer else value_serializer self]"
    by (simp add: loads_value_def loads_value_try_def rr m Let_def py_or_def)
  have d: "truthy (options_serializer c) \<and> \<not> isinstance_any (VModel c st) skip \<longrightarrow>
      dumps_key cap self (VModel c st) serializer skip =
        (model_dumps cap (VModel c st) (options_serializer c),
         [ModelDumps (VModel c st) (options_serializer c)]) \<and>
      dumps_value cap self (VModel c st) serializer skip =
        (model_dumps cap (VModel c st) (options_serializer c),
         [ModelDumps (VModel c st) (options_serializer c)])"
    by (simp add: dumps_key_def dumps_value_def py_or_def invoke_def Let_def)
  from k v m mk mv d show ?thesis by blast
qed

theorem codec_precedence_witness:
  "VBytes ''1'' \<noteq> VNone \<and> \<not> is_model (VBytes ''1'') \<and>
   truthy (options_serializer model_C) \<and>
   \<not> isinstance_any (VModel model_C (VInt 1)) default_skip \<and>
   codecs_used (snd (loads_key sample Registry (Some (ArgModel model_C)) (VBytes ''1'')
                       (Some (CodecName ''other'')))) = [Some (CodecName ''other'')] \<and>
   codecs_used (snd (loads_value sample Registry (Some (ArgModel model_C)) (VBytes ''1'')
                       (Some (CodecName ''other'')))) = [Some (CodecName ''other'')] \<and>
   codecs_used (snd (loads_key sample Registry None (VBytes ''1'') None)) = [None] \<and>
   codecs_used (snd (loads_value sample Registry None (VBytes ''1'') None)) = [json] \<and>
   codecs_used (snd (loads_model sample (Some (ArgModel model_C)) (Some (CodecName ''other''))
                       (VBytes ''1''))) = [json] \<and>
   codecs_used (snd (loads_key sample Registry (Some (ArgModel model_C))
                       (VModel model_C (VInt 1)) (Some (CodecName ''other'')))) = [json] \<and>
   codecs_used (snd (loads_value sample Registry (Some (ArgModel model_A))
                       (VModel model_C (VInt 1)) (Some (CodecName ''other'')))) =
     [Some (CodecName ''other'')] \<and>
   dumps_key sample Registry (VModel model_C (VInt 1)) (Some (CodecName ''other''))
       default_skip =
     (Inr (VBytes ''1''), [ModelDumps (VModel model_C (VInt 1)) json]) \<and>
   dumps_value sample Registry (VModel model_C (VInt 1)) (Some (CodecName ''other''))
       default_skip =
     (Inr (VBytes ''1''), [ModelDumps (VModel model_C (VInt 1)) json])"
proof -
  have ne: "VBytes ''1'' \<noteq> VNone" and nm: "\<not> is_model (VBytes ''1'')"
    by simp_all
  have tc: "truthy (options_serializer model_C)"
    by (simp add: model_C_def json_def)
  have ta: "\<not> truthy (options_serializer model_A)"
    by (simp add: model_A_def)
  have sk: "\<not> isinstance_any (VModel model_C (VInt 1)) default_skip"
    by (simp add: isinstance_any_def default_skip_def)
  have md: "model_dumps sample (VModel model_C (VInt 1)) (options_serializer model_C) =
            Inr (VBytes ''1'')"
    by (simp add: sample_defs)
  have oc: "options_serializer model_C = json"
    by (simp add: model_C_def)
  have reg: "key_serializer Registry = None" "value_serializer Registry = json"
    by (simp_all add: Registry_def json_def)
  from codec_precedence [OF ne nm, of sample Registry "Some (ArgModel model_C)"
         "Some (CodecName ''other'')" model_C "VBytes ''1''" model_C "VInt 1" default_skip]
       codec_precedence [OF ne nm, of sample Registry None
         None model_A "VBytes ''1''" model_C "VInt 1" default_skip]
       codec_precedence [OF ne nm, of sample Registry None
         "Some (CodecName ''other'')" model_A "VBytes ''1''" model_C "VInt 1" default_skip]
  show ?thesis using ne nm tc ta sk md oc reg by simp
qed

subsection \<open>The embedded type tag\<close>

text \<open>
  C5.  Let \<open>A\<close> and \<open>B\<close> be two different model classes, and let the decoded data carry
  the tag of \<open>A\<close>: the reconstruction by tag yields an instance of \<open>A\<close>, respectively
  the tag lookup answers \<open>A\<close>.  Then decoding with target \<open>B\<close> returns the instance of
  \<open>A\<close>, not one of \<open>B\<close>: in the path for raw input of \<open>loads_key\<close> and \<open>loads_value\<close>,
  where \<open>B\<close> is never constructed, and in \<open>loads_model\<close>, where \<open>A\<close> is constructed in
  place of \<open>B\<close>.
\<close>

theorem tag_overrides_target:
  "A \<noteq> B \<Longrightarrow> data \<noteq> VNone \<Longrightarrow>
   (\<not> is_model data \<and>
    loads cap (py_or serializer (key_serializer self)) data = Inr d \<and>
    maybe_reconstruct cap d = Inr (VModel A st) \<longrightarrow>
      loads_key cap self (Some (ArgModel B)) data serializer =
        (Inr (VModel A st),
         [Loads (py_or serializer (key_serializer self)) data, MaybeReconstruct d])) \<and>
   (\<not> is_model data \<and>
    loads cap (py_or serializer (value_serializer self)) data = Inr d \<and>
    maybe_reconstruct cap d = Inr (VModel A st) \<longrightarrow>
      loads_value cap self (Some (ArgModel B)) data serializer =
        (Inr (VModel A st),
         [Loads (py_or serializer (value_serializer self)) data, MaybeReconstruct d])) \<and>
   (loads cap (py_or (options_serializer B) serializer) data = Inr d \<and>
    maybe_namespace cap d = Inr (Some A) \<and>
    model_init cap A d = Inr st \<longrightarrow>
      loads_model cap (Some (ArgModel B)) serializer data =
        (Inr (VModel A st),
         [Loads (py_or (options_serializer B) serializer) data, MaybeNamespace d,
          Construct A d])) \<and>
   (is_model data \<and>
    loads cap (py_or (options_serializer B) (py_or serializer (key_serializer self))) data =
      Inr d \<and>
    maybe_namespace cap d = Inr (Some A) \<and>
    model_init cap A d = Inr st \<longrightarrow>
      fst (loads_key cap self (Some (ArgModel B)) data serializer) = Inr (VModel A st)) \<and>
   class_of (VModel A st) = Some A \<and> class_of (VModel A st) \<noteq> Some B"
proof -
  assume ab: "A \<noteq> B" and ne: "data \<noteq> VNone"
  have k: "loads_key cap self (Some (ArgModel B)) data serializer =
        (Inr (VModel A st),
         [Loads (py_or serializer (key_serializer self)) data, MaybeReconstruct d])"
    if "\<not> is_model data"
       "loads cap (py_or serializer (key_serializer self)) data = Inr d"
       "maybe_reconstruct cap d = Inr (VModel A st)"
    using that ne
    by (simp add: loads_key_def loads_key_try_def registry_loads_def reraise_as_def
          run_defs Let_def)
  have v: "loads_value cap self (Some (ArgModel B)) data serializer =
        (Inr (VModel A st),
         [Loads (py_or serializer (value_serializer self)) data, MaybeReconstruct d])"
    if "\<not> is_model data"
       "loads cap (py_or serializer (value_serializer self)) data = Inr d"
       "maybe_reconstruct cap d = Inr (VModel A st)"
    using that ne
    by (simp add: loads_value_def loads_value_try_def registry_loads_def reraise_as_def
          run_defs Let_def)
  have m: "loads_model cap (Some (ArgModel B)) s data =
        (Inr (VModel A st),
         [Loads (py_or (options_serializer B) s) data, MaybeNamespace d, Construct A d])"
    if "loads cap (py_or (options_serializer B) s) data = Inr d"
       "maybe_namespace cap d = Inr (Some A)"
       "model_init cap A d = Inr st" for s
    using that
    by (simp add: loads_model_def registry_loads_def construct_def run_defs)
  have mk: "fst (loads_key cap self (Some (ArgModel B)) data serializer) = Inr (VModel A st)"
    if "is_model data"
       "loads cap (py_or (options_serializer B) (py_or serializer (key_serializer self))) data =
          Inr d"
       "maybe_namespace cap d = Inr (Some A)"
       "model_init cap A d = Inr st"
    using that ne m [OF that(2-4)]
    by (simp add: loads_key_def loads_key_try_def reraise_as_def Let_def)
  from ab k v m mk show ?thesis by simp
qed

theorem tag_overrides_target_witness:
  "model_A \<noteq> model_B \<and>
   \<not> is_model (VBytes ''{__faust:A,x:1}'') \<and>
   loads sample (py_or json (key_serializer Registry)) (VBytes ''{__faust:A,x:1}'') =
     Inr tagged_A \<and>
   maybe_reconstruct sample tagged_A = Inr (VModel model_A tagged_A) \<and>
   maybe_namespace sample tagged_A = Inr (Some model_A) \<and>
   model_init sample model_A tagged_A = Inr tagged_A \<and>
   loads_key sample Registry (Some (ArgModel model_B)) (VBytes ''{__faust:A,x:1}'') json =
     (Inr (VModel model_A tagged_A),
      [Loads json (VBytes ''{__faust:A,x:1}''), MaybeReconstruct tagged_A]) \<and>
   loads_value sample Registry (Some (ArgModel model_B)) (VBytes ''{__faust:A,x:1}'') json =
     (Inr (VModel model_A tagged_A),
      [Loads json (VBytes ''{__faust:A,x:1}''), MaybeReconstruct tagged_A]) \<and>
   loads_model sample (Some (ArgModel model_B)) json (VBytes ''{__faust:A,x:1}'') =
     (Inr (VModel model_A tagged_A),
      [Loads json (VBytes ''{__faust:A,x:1}''), MaybeNamespace tagged_A,
       Construct model_A tagged_A]) \<and>
   is_model (VModel model_B (VInt 1)) \<and>
   fst (loads_key (sample\<lparr>loads := \<lambda>c x. Inr tagged_A\<rparr>) Registry (Some (ArgModel model_B))
          (VModel model_B (VInt 1)) None) =
     Inr (VModel model_A tagged_A) \<and>
   class_of (VModel model_A tagged_A) \<noteq> Some model_B"
proof -
  have ab: "model_A \<noteq> model_B"
    by (simp add: model_A_def model_B_def)
  have ne: "VBytes ''{__faust:A,x:1}'' \<noteq> VNone" and ne': "VModel model_B (VInt 1) \<noteq> VNone"
    by simp_all
  have c: "py_or json (key_serializer Registry) = json"
          "py_or json (value_serializer Registry) = json"
          "py_or (options_serializer model_B) json = json"
    by (simp_all add: py_or_def json_def Registry_def model_B_def)
  have l: "loads sample json (VBytes ''{__faust:A,x:1}'') = Inr tagged_A"
    by (simp add: sample_def sample_loads_def sample_table_def json_def)
  have r: "maybe_reconstruct sample tagged_A = Inr (VModel model_A tagged_A)"
    by (simp add: sample_def sample_maybe_reconstruct_def sample_maybe_namespace_def
          sample_models_def tagged_A_def)
  have n: "maybe_namespace sample tagged_A = Inr (Some model_A)"
    by (simp add: sample_def sample_maybe_namespace_def sample_models_def tagged_A_def)
  have i: "model_init sample model_A tagged_A = Inr tagged_A"
    by (simp add: sample_def sample_model_init_def)
  have n': "maybe_namespace (sample\<lparr>loads := \<lambda>c x. Inr tagged_A\<rparr>) tagged_A =
            Inr (Some model_A)"
    using n by (simp add: sample_def)
  have i': "model_init (sample\<lparr>loads := \<lambda>c x. Inr tagged_A\<rparr>) model_A tagged_A =
            Inr tagged_A"
    by (simp add: sample_def sample_model_init_def)
  from tag_overrides_target [OF ab ne, of sample json Registry tagged_A tagged_A]
       tag_overrides_target [OF ab ne', of "sample\<lparr>loads := \<lambda>c x. Inr tagged_A\<rparr>" None
         Registry tagged_A tagged_A]
  show ?thesis using ab c l r n i n' i' by simp
qed

subsection \<open>The target type when none is given\<close>

text \<open>
  C6.  With no target type, \<open>loads_value\<close> behaves as with the target \<^verbatim>\<open>bytes\<close>: the
  decoded and possibly reconstructed value is passed to \<^verbatim>\<open>want_bytes\<close>, whose outcome
  is the result.  \<open>loads_key\<close> with no target type returns the decoded and possibly
  reconstructed value as it is; after the reconstruction no call is made.
\<close>

theorem default_target_type:
  "data \<noteq> VNone \<Longrightarrow> \<not> is_model data \<Longrightarrow>
   loads_value cap self None data serializer =
     loads_value cap self (Some ArgBytes) data serializer \<and>
   (loads cap (py_or serializer (value_serializer self)) data = Inr d \<and>
    maybe_reconstruct cap d = Inr v \<longrightarrow>
      loads_value cap self None data serializer =
        (handled ValueDecodeError (want_bytes cap v),
         [Loads (py_or serializer (value_serializer self)) data, MaybeReconstruct d,
          WantBytes v])) \<and>
   (loads cap (py_or serializer (key_serializer self)) data = Inr d' \<and>
    maybe_reconstruct cap d' = Inr k \<longrightarrow>
      loads_key cap self None data serializer =
        (Inr k, [Loads (py_or serializer (key_serializer self)) data, MaybeReconstruct d']))"
proof -
  assume ne: "data \<noteq> VNone" and nm: "\<not> is_model data"
  have a: "loads_value cap self None data serializer =
           loads_value cap self (Some ArgBytes) data serializer"
    using ne nm by (simp add: loads_value_def loads_value_try_def Let_def)
  have b: "loads_value cap self None data serializer =
        (handled ValueDecodeError (want_bytes cap v),
         [Loads (py_or serializer (value_serializer self)) data, MaybeReconstruct d,
          WantBytes v])"
    if "loads cap (py_or serializer (value_serializer self)) data = Inr d"
       "maybe_reconstruct cap d = Inr v"
    using that ne nm
    by (simp add: loads_value_def loads_value_try_def registry_loads_def Let_def
          bind_def invoke_def reraise_as_handled)
  have c: "loads_key cap self None data serializer =
        (Inr k, [Loads (py_or serializer (key_serializer self)) data, MaybeReconstruct d'])"
    if "loads cap (py_or serializer (key_serializer self)) data = Inr d'"
       "maybe_reconstruct cap d' = Inr k"
    using that ne nm
    by (simp add: loads_key_def loads_key_try_def registry_loads_def Let_def
          bind_def invoke_def ret_def reraise_as_handled handled_def)
  from a b c show ?thesis by simp
qed

theorem default_target_type_witness:
  "VBytes ''{a:1}'' \<noteq> VNone \<and> \<not> is_model (VBytes ''{a:1}'') \<and>
   loads sample (py_or None (value_serializer Registry)) (VBytes ''{a:1}'') =
     Inr (VDict [(''a'', VInt 1)]) \<and>
   maybe_reconstruct sample (VDict [(''a'', VInt 1)]) = Inr (VDict [(''a'', VInt 1)]) \<and>
   loads_value sample Registry None (VBytes ''{a:1}'') None =
     (Inl (Exn ValueDecodeError ''not bytes''
             (Some (Exn (OtherError ''CoercionError'') ''not bytes'' None))),
      [Loads json (VBytes ''{a:1}''), MaybeReconstruct (VDict [(''a'', VInt 1)]),
       WantBytes (VDict [(''a'', VInt 1)])]) \<and>
   loads sample (py_or None (key_serializer Registry)) (VBytes ''{a:1}'') =
     Inr (VBytes ''{a:1}'') \<and>
   maybe_reconstruct sample (VBytes ''{a:1}'') = Inr (VBytes ''{a:1}'') \<and>
   loads_key sample Registry None (VBytes ''{a:1}'') None =
     (Inr (VBytes ''{a:1}''),
      [Loads None (VBytes ''{a:1}''), MaybeReconstruct (VBytes ''{a:1}'')])"
proof -
  have ne: "VBytes ''{a:1}'' \<noteq> VNone" and nm: "\<not> is_model (VBytes ''{a:1}'')"
    by simp_all
  have c: "py_or None (value_serializer Registry) = json"
          "py_or None (key_serializer Registry) = None"
    by (simp_all add: py_or_def json_def Registry_def)
  have lv: "loads sample json (VBytes ''{a:1}'') = Inr (VDict [(''a'', VInt 1)])"
    by (simp add: sample_def sample_loads_def sample_table_def json_def)
  have rv: "maybe_reconstruct sample (VDict [(''a'', VInt 1)]) = Inr (VDict [(''a'', VInt 1)])"
    by (simp add: sample_def sample_maybe_reconstruct_def sample_maybe_namespace_def)
  have wv: "handled ValueDecodeError (want_bytes sample (VDict [(''a'', VInt 1)])) =
            Inl (Exn ValueDecodeError ''not bytes''
                   (Some (Exn (OtherError ''CoercionError'') ''not bytes'' None)))"
    by (simp add: sample_def sample_want_bytes_def handled_def)
  have lk: "loads sample None (VBytes ''{a:1}'') = Inr (VBytes ''{a:1}'')"
    by (simp add: sample_def sample_loads_def)
  have rk: "maybe_reconstruct sample (VBytes ''{a:1}'') = Inr (VBytes ''{a:1}'')"
    by (simp add: sample_def sample_maybe_reconstruct_def sample_maybe_namespace_def)
  from default_target_type [OF ne nm, THEN conjunct2, of sample None Registry
         "VDict [(''a'', VInt 1)]" "VDict [(''a'', VInt 1)]"
         "VBytes ''{a:1}''" "VBytes ''{a:1}''"]
  show ?thesis using c lv rv wv lk rk by simp
qed

subsection \<open>A reconstructed model instance and the target type\<close>

text \<open>
  C9, as the code has it.  Let the input be raw and let the value after decoding and
  reconstruction by tag be a model instance \<open>v\<close>.  When the target is a model class,
  \<open>loads_key\<close> and \<open>loads_value\<close> return \<open>v\<close> as it is and make no further call; so does
  \<open>loads_key\<close> with no target.  When the target is \<^verbatim>\<open>str\<close> the instance is passed to
  \<^verbatim>\<open>want_str\<close>, when it is \<^verbatim>\<open>bytes\<close> (or absent, for \<open>loads_value\<close>) to \<^verbatim>\<open>want_bytes\<close>, and
  the outcome of that helper is the result.
\<close>

theorem model_instance_and_target:
  "data \<noteq> VNone \<Longrightarrow> \<not> is_model data \<Longrightarrow> is_model v \<Longrightarrow>
   (loads cap (py_or serializer (key_serializer self)) data = Inr d \<and>
    maybe_reconstruct cap d = Inr v \<longrightarrow>
      loads_key cap self (Some (ArgModel cls)) data serializer =
        (Inr v, [Loads (py_or serializer (key_serializer self)) data, MaybeReconstruct d]) \<and>
      loads_key cap self None data serializer =
        (Inr v, [Loads (py_or serializer (key_serializer self)) data, MaybeReconstruct d]) \<and>
      loads_key cap self (Some ArgStr) data serializer =
        (handled KeyDecodeError (want_str cap v),
         [Loads (py_or serializer (key_serializer self)) data, MaybeReconstruct d,
          WantStr v]) \<and>
      loads_key cap self (Some ArgBytes) data serializer =
        (handled KeyDecodeError (want_bytes cap v),
         [Loads (py_or serializer (key_serializer self)) data, MaybeReconstruct d,
          WantBytes v])) \<and>
   (loads cap (py_or serializer (value_serializer self)) data = Inr d' \<and>
    maybe_reconstruct cap d' = Inr v \<longrightarrow>
      loads_value cap self (Some (ArgModel cls)) data serializer =
        (Inr v, [Loads (py_or serializer (value_serializer self)) data,
                 MaybeReconstruct d']) \<and>
      loads_value cap self (Some ArgStr) data serializer =
        (handled ValueDecodeError (want_str cap v),
         [Loads (py_or serializer (value_serializer self)) data, MaybeReconstruct d',
          WantStr v]) \<and>
      loads_value cap self (Some ArgBytes) data serializer =
        (handled ValueDecodeError (want_bytes cap v),
         [Loads (py_or serializer (value_serializer self)) data, MaybeReconstruct d',
          WantBytes v]) \<and>
      loads_value cap self None data serializer =
        (handled ValueDecodeError (want_bytes cap v),
         [Loads (py_or serializer (value_serializer self)) data, MaybeReconstruct d',
          WantBytes v]))"
proof -
  assume ne: "data \<noteq> VNone" and nm: "\<not> is_model data" and mv: "is_model v"
  have k: "loads_key cap self tgt data serializer =
           (case tgt of
              None \<Rightarrow> (Inr v, [Loads (py_or serializer (key_serializer self)) data,
                                MaybeReconstruct d])
            | Some ArgStr \<Rightarrow>
                (handled KeyDecodeError (want_str cap v),
                 [Loads (py_or serializer (key_serializer self)) data, MaybeReconstruct d,
                  WantStr v])
            | Some ArgBytes \<Rightarrow>
                (handled KeyDecodeError (want_bytes cap v),
                 [Loads (py_or serializer (key_serializer self)) data, MaybeReconstruct d,
                  WantBytes v])
            | Some (ArgModel c) \<Rightarrow>
                (Inr v, [Loads (py_or serializer (key_serializer self)) data,
                         MaybeReconstruct d]))"
    if "loads cap (py_or serializer (key_serializer self)) data = Inr d"
       "maybe_reconstruct cap d = Inr v" for tgt
    using that ne nm mv
    by (simp add: loads_key_def loads_key_try_def registry_loads_def Let_def
          bind_def invoke_def ret_def reraise_as_handled handled_def
        split: option.splits model_arg.splits)
  have w: "loads_value cap self tgt data serializer =
           (case tgt of
              None \<Rightarrow>
                (handled ValueDecodeError (want_bytes cap v),
                 [Loads (py_or serializer (value_serializer self)) data, MaybeReconstruct d',
                  WantBytes v])
            | Some ArgStr \<Rightarrow>
                (handled ValueDecodeError (want_str cap v),
                 [Loads (py_or serializer (value_serializer self)) data, MaybeReconstruct d',
                  WantStr v])
            | Some ArgBytes \<Rightarrow>
                (handled ValueDecodeError (want_bytes cap v),
                 [Loads (py_or serializer (value_serializer self)) data, MaybeReconstruct d',
                  WantBytes v])
            | Some (ArgModel c) \<Rightarrow>
                (Inr v, [Loads (py_or serializer (value_serializer self)) data,
                         MaybeReconstruct d']))"
    if "loads cap (py_or serializer (value_serializer self)) data = Inr d'"
       "maybe_reconstruct cap d' = Inr v" for tgt
    using that ne nm mv
    by (simp add: loads_value_def loads_value_try_def registry_loads_def Let_def
          bind_def invoke_def ret_def reraise_as_handled handled_def
        split: option.splits model_arg.splits)
  show ?thesis
    using k [of "Some (ArgModel cls)"] k [of None] k [of "Some ArgStr"]
      k [of "Some ArgBytes"] w [of "Some (ArgModel cls)"] w [of None]
      w [of "Some ArgStr"] w [of "Some ArgBytes"]
    by simp
qed

theorem model_instance_and_target_witness:
  "VBytes ''{__faust:A,x:1}'' \<noteq> VNone \<and> \<not> is_model (VBytes ''{__faust:A,x:1}'') \<and>
   is_model (VModel model_A tagged_A) \<and>
   loads sample (py_or json (key_serializer Registry)) (VBytes ''{__faust:A,x:1}'') =
     Inr tagged_A \<and>
   loads sample (py_or json (value_serializer Registry)) (VBytes ''{__faust:A,x:1}'') =
     Inr tagged_A \<and>
   maybe_reconstruct sample tagged_A = Inr (VModel model_A tagged_A) \<and>
   loads_key sample Registry (Some (ArgModel model_B)) (VBytes ''{__faust:A,x:1}'') json =
     (Inr (VModel model_A tagged_A),
      [Loads json (VBytes ''{__faust:A,x:1}''), MaybeReconstruct tagged_A]) \<and>
   loads_key sample Registry (Some ArgBytes) (VBytes ''{__faust:A,x:1}'') json =
     (Inl (Exn KeyDecodeError ''not bytes''
             (Some (Exn (OtherError ''CoercionError'') ''not bytes'' None))),
      [Loads json (VBytes ''{__faust:A,x:1}''), MaybeReconstruct tagged_A,
       WantBytes (VModel model_A tagged_A)]) \<and>
   loads_value sample Registry (Some (ArgModel model_B)) (VBytes ''{__faust:A,x:1}'') json =
     (Inr (VModel model_A tagged_A),
      [Loads json (VBytes ''{__faust:A,x:1}''), MaybeReconstruct tagged_A]) \<and>
   loads_value sample Registry (Some ArgStr) (VBytes ''{__faust:A,x:1}'') json =
     (Inl (Exn ValueDecodeError ''not text''
             (Some (Exn (OtherError ''CoercionError'') ''not text'' None))),
      [Loads json (VBytes ''{__faust:A,x:1}''), MaybeReconstruct tagged_A,
       WantStr (VModel model_A tagged_A)])"
proof -
  have ne: "VBytes ''{__faust:A,x:1}'' \<noteq> VNone"
    and nm: "\<not> is_model (VBytes ''{__faust:A,x:1}'')"
    and mv: "is_model (VModel model_A tagged_A)"
    by simp_all
  have c: "py_or json (key_serializer Registry) = json"
          "py_or json (value_serializer Registry) = json"
    by (simp_all add: py_or_def json_def Registry_def)
  have l: "loads sample json (VBytes ''{__faust:A,x:1}'') = Inr tagged_A"
    by (simp add: sample_def sample_loads_def sample_table_def json_def)
  have r: "maybe_reconstruct sample tagged_A = Inr (VModel model_A tagged_A)"
    by (simp add: sample_def sample_maybe_reconstruct_def sample_maybe_namespace_def
          sample_models_def tagged_A_def)
  have ws: "handled ValueDecodeError (want_str sample (VModel model_A tagged_A)) =
            Inl (Exn ValueDecodeError ''not text''
                   (Some (Exn (OtherError ''CoercionError'') ''not text'' None)))"
    by (simp add: sample_def sample_want_str_def handled_def)
  have wb: "handled KeyDecodeError (want_bytes sample (VModel model_A tagged_A)) =
            Inl (Exn KeyDecodeError ''not bytes''
                   (Some (Exn (OtherError ''CoercionError'') ''not bytes'' None)))"
    by (simp add: sample_def sample_want_bytes_def handled_def)
  from model_instance_and_target [OF ne nm mv, of sample json Registry tagged_A model_B
         tagged_A]
  show ?thesis using c l r ws wb by simp
qed

text \<open>
  C9 as stated fails for the targets \<^verbatim>\<open>str\<close> and \<^verbatim>\<open>bytes\<close>: the bytes below decode to data
  tagged for \<open>model_A\<close>, the reconstruction yields an instance of \<open>model_A\<close>, and
  \<open>loads_key\<close> with target \<^verbatim>\<open>str\<close> applies \<^verbatim>\<open>want_str\<close> to that instance, \<open>loads_value\<close> with
  no target applies \<^verbatim>\<open>want_bytes\<close> to it.
\<close>

theorem model_instance_coerced_counterexample:
  "maybe_reconstruct sample tagged_A = Inr (VModel model_A tagged_A) \<and>
   is_model (VModel model_A tagged_A) \<and>
   coercions (snd (loads_key sample Registry (Some ArgStr) (VBytes ''{__faust:A,x:1}'') json)) =
     [WantStr (VModel model_A tagged_A)] \<and>
   coercions (snd (loads_value sample Registry None (VBytes ''{__faust:A,x:1}'') None)) =
     [WantBytes (VModel model_A tagged_A)]"
  by (simp add: loads_key_def loads_key_try_def loads_value_def loads_value_try_def
        registry_loads_def reraise_as_def coercions_def py_or_def run_defs Let_def
        sample_defs)

subsection \<open>Encoding bytes, None and values without a codec\<close>

text \<open>
  C7.  With the default \<^verbatim>\<open>skip\<close>, a value that is already \<^verbatim>\<open>bytes\<close> comes back unchanged
  from \<open>dumps_key\<close> and from \<open>dumps_value\<close>, whatever the registry's defaults and the
  \<^verbatim>\<open>serializer\<close> argument are, and no codec is called.  \<open>dumps_value\<close> makes no call at
  all; \<open>dumps_key\<close> passes the bytes through \<^verbatim>\<open>want_bytes\<close>, a helper that leaves bytes as
  they are.
\<close>

theorem dumps_bytes_unchanged:
  "want_bytes cap (VBytes b) = Inr (VBytes b) \<Longrightarrow>
   dumps_key cap self (VBytes b) serializer default_skip =
     (Inr (VBytes b), [WantBytes (VBytes b)]) \<and>
   codecs_used (snd (dumps_key cap self (VBytes b) serializer default_skip)) = [] \<and>
   dumps_value cap self (VBytes b) serializer default_skip = (Inr (VBytes b), [])"
  by (simp add: dumps_key_def dumps_value_def default_skip_def isinstance_any_def
        codecs_used_def invoke_def ret_def Let_def)

theorem dumps_bytes_unchanged_witness:
  "want_bytes sample (VBytes ''abc'') = Inr (VBytes ''abc'') \<and>
   dumps_key sample \<lparr>key_serializer = json, value_serializer = json\<rparr> (VBytes ''abc'')
       (Some (CodecName ''other'')) default_skip =
     (Inr (VBytes ''abc''), [WantBytes (VBytes ''abc'')]) \<and>
   dumps_value sample \<lparr>key_serializer = json, value_serializer = json\<rparr> (VBytes ''abc'')
       (Some (CodecName ''other'')) default_skip =
     (Inr (VBytes ''abc''), [])"
proof -
  have w: "want_bytes sample (VBytes ''abc'') = Inr (VBytes ''abc'')"
    by (simp add: sample_def sample_want_bytes_def)
  from dumps_bytes_unchanged [OF w]
  show ?thesis using w by simp
qed

text \<open>
  C8, as the code has it.  \<open>dumps_key\<close> of \<^verbatim>\<open>None\<close> returns \<^verbatim>\<open>None\<close>, without any call,
  when the registry's \<open>key_serializer\<close> is absent (or \<^verbatim>\<open>None\<close> is an instance of a class
  in \<^verbatim>\<open>skip\<close>); \<open>dumps_value\<close> of \<^verbatim>\<open>None\<close> returns \<^verbatim>\<open>None\<close>, without any call, when
  neither the \<^verbatim>\<open>serializer\<close> argument nor \<open>value_serializer\<close> is present (or \<^verbatim>\<open>None\<close> is
  skipped).  In the other case \<^verbatim>\<open>None\<close> is handed to the chosen codec and the result
  is what the codec returns.
\<close>

theorem dumps_none:
  "(\<not> truthy (key_serializer self) \<or> isinstance_any VNone skip \<longrightarrow>
      dumps_key cap self VNone serializer skip = (Inr VNone, [])) \<and>
   (\<not> truthy (py_or serializer (value_serializer self)) \<or> isinstance_any VNone skip \<longrightarrow>
      dumps_value cap self VNone serializer skip = (Inr VNone, [])) \<and>
   (truthy (key_serializer self) \<and> \<not> isinstance_any VNone skip \<longrightarrow>
      dumps_key cap self VNone serializer skip =
        (dumps cap (key_serializer self) VNone, [Dumps (key_serializer self) VNone])) \<and>
   (truthy (py_or serializer (value_serializer self)) \<and> \<not> isinstance_any VNone skip \<longrightarrow>
      dumps_value cap self VNone serializer skip =
        (dumps cap (py_or serializer (value_serializer self)) VNone,
         [Dumps (py_or serializer (value_serializer self)) VNone]))"
  by (auto simp: dumps_key_def dumps_value_def invoke_def ret_def Let_def)

theorem dumps_none_witness:
  "\<not> truthy (key_serializer Registry) \<and>
   dumps_key sample Registry VNone None default_skip = (Inr VNone, []) \<and>
   \<not> truthy (py_or None (value_serializer \<lparr>key_serializer = json, value_serializer = None\<rparr>)) \<and>
   dumps_value sample \<lparr>key_serializer = json, value_serializer = None\<rparr> VNone None
       default_skip = (Inr VNone, []) \<and>
   truthy (key_serializer \<lparr>key_serializer = json, value_serializer = None\<rparr>) \<and>
   \<not> isinstance_any VNone default_skip \<and>
   dumps_key sample \<lparr>key_serializer = json, value_serializer = None\<rparr> VNone None
       default_skip = (Inr (VBytes ''null''), [Dumps json VNone]) \<and>
   truthy (py_or None (value_serializer Registry)) \<and>
   dumps_value sample Registry VNone None default_skip =
     (Inr (VBytes ''null''), [Dumps json VNone])"
proof -
  have a: "\<not> truthy (key_serializer Registry)"
          "truthy (py_or None (value_serializer Registry))"
          "py_or None (value_serializer Registry) = json"
    by (simp_all add: Registry_def py_or_def json_def)
  have b: "truthy (key_serializer \<lparr>key_serializer = json, value_serializer = None\<rparr>)"
          "\<not> truthy (py_or None
                 (value_serializer \<lparr>key_serializer = json, value_serializer = None\<rparr>))"
    by (simp_all add: py_or_def json_def)
  have sk: "\<not> isinstance_any VNone default_skip"
    by (simp add: isinstance_any_def default_skip_def)
  have d: "dumps sample json VNone = Inr (VBytes ''null'')"
    by (simp add: sample_def sample_dumps_def sample_table_def json_def)
  from dumps_none [of Registry default_skip sample None]
       dumps_none [of "\<lparr>key_serializer = json, value_serializer = None\<rparr>" default_skip
         sample None]
  show ?thesis using a b sk d by simp
qed

text \<open>
  C8 as stated fails: a registry built with the defaults of \<^verbatim>\<open>__init__\<close> hands a \<^verbatim>\<open>None\<close>
  value to the json codec, and a registry whose \<open>key_serializer\<close> is json does the
  same with a \<^verbatim>\<open>None\<close> key; the result is the codec's, not \<^verbatim>\<open>None\<close>.
\<close>

theorem dumps_none_counterexample:
  "fst (dumps_value sample Registry VNone None default_skip) \<noteq> Inr VNone \<and>
   snd (dumps_value sample Registry VNone None default_skip) = [Dumps json VNone] \<and>
   fst (dumps_key sample \<lparr>key_serializer = json, value_serializer = json\<rparr> VNone None
          default_skip) \<noteq> Inr VNone \<and>
   snd (dumps_key sample \<lparr>key_serializer = json, value_serializer = json\<rparr> VNone None
          default_skip) = [Dumps json VNone]"
  by (simp add: dumps_value_def dumps_key_def py_or_def isinstance_any_def invoke_def
        Let_def sample_defs)

text \<open>
  C10.  When \<open>dumps_value\<close> resolves no codec (no \<^verbatim>\<open>serializer\<close> argument and no
  \<open>value_serializer\<close>) and the value is no model instance, the value is returned
  exactly as passed, without any call; \<open>dumps_key\<close> in the same situation passes a key
  other than \<^verbatim>\<open>None\<close> to \<^verbatim>\<open>want_bytes\<close>.  So the result of \<open>dumps_value\<close> need not be
  bytes: a value that is not bytes comes back as a value that is not bytes.
\<close>

theorem dumps_without_codec:
  "\<not> truthy serializer \<Longrightarrow> \<not> truthy (value_serializer self) \<Longrightarrow>
   \<not> truthy (key_serializer self) \<Longrightarrow> \<not> is_model v \<Longrightarrow>
   dumps_value cap self v serializer skip = (Inr v, []) \<and>
   (v \<noteq> VNone \<longrightarrow>
      dumps_key cap self v serializer skip = (want_bytes cap v, [WantBytes v])) \<and>
   (\<not> isinstance v TyBytes \<longrightarrow>
      (case fst (dumps_value cap self v serializer skip) of
         Inl e \<Rightarrow> False
       | Inr r \<Rightarrow> \<not> isinstance r TyBytes))"
  by (cases v) (simp_all add: dumps_key_def dumps_value_def py_or_def invoke_def ret_def Let_def)

theorem dumps_without_codec_witness:
  "\<not> truthy None \<and>
   \<not> truthy (value_serializer \<lparr>key_serializer = None, value_serializer = None\<rparr>) \<and>
   \<not> truthy (key_serializer \<lparr>key_serializer = None, value_serializer = None\<rparr>) \<and>
   \<not> is_model (VInt 1) \<and> VInt 1 \<noteq> VNone \<and> \<not> isinstance (VInt 1) TyBytes \<and>
   dumps_value sample \<lparr>key_serializer = None, value_serializer = None\<rparr> (VInt 1) None
       default_skip = (Inr (VInt 1), []) \<and>
   dumps_key sample \<lparr>key_serializer = None, value_serializer = None\<rparr> (VInt 1) None
       default_skip =
     (Inl (Exn (OtherError ''CoercionError'') ''not bytes'' None), [WantBytes (VInt 1)])"
proof -
  have a: "\<not> truthy None"
    and b: "\<not> truthy (value_serializer \<lparr>key_serializer = None, value_serializer = None\<rparr>)"
    and c: "\<not> truthy (key_serializer \<lparr>key_serializer = None, value_serializer = None\<rparr>)"
    and d: "\<not> is_model (VInt 1)"
    by simp_all
  have w: "want_bytes sample (VInt 1) =
           Inl (Exn (OtherError ''CoercionError'') ''not bytes'' None)"
    by (simp add: sample_def sample_want_bytes_def)
  from dumps_without_codec [OF a b c d, of sample default_skip]
  show ?thesis using w by simp
qed

end
